theory Spec2Isabelle
  imports Complex_Main
begin

section \<open>Python values, exceptions and results\<close>

text \<open>
  The values the interface handles: what \<^verbatim>\<open>recv_json\<close> decodes (JSON: null, booleans,
  numbers, strings, arrays, objects), a \<^verbatim>\<open>multiprocessing.Event\<close> with its flag, and
  opaque objects (modules, the ZMQ context). A JSON object is the association list of
  its keys; \<open>map_of\<close> looks a key up.
\<close>

datatype pyval =
    PNone
  | PBool bool
  | PInt int
  | PFloat real
  | PStr string
  | PList "pyval list"
  | PDict "(string \<times> pyval) list"
  | PEvent bool
  | PObject string

text \<open>
  The exceptions that the code can meet. \<open>Again\<close> is \<^verbatim>\<open>zmq.Again\<close>
  (\<^verbatim>\<open>zmq.error.Again\<close> is the same class): nothing is waiting on a non-blocking receive.
  \<open>JSONDecodeError\<close> is what \<^verbatim>\<open>recv_json\<close> raises on a payload that is not JSON.
\<close>

datatype pyerr =
    Again
  | AttributeError string
  | NameError string
  | KeyError string
  | TypeError
  | ValueError
  | IndexError
  | EnvironmentError string
  | JSONDecodeError

datatype 'a result = Returns 'a | Raises pyerr

definition bind_result :: "'a result \<Rightarrow> ('a \<Rightarrow> 'b result) \<Rightarrow> 'b result" where
  "bind_result r f = (case r of Raises e \<Rightarrow> Raises e | Returns v \<Rightarrow> f v)"

text \<open>Python's truth value of an object, as \<^verbatim>\<open>if x:\<close> tests it.\<close>

fun truthy :: "pyval \<Rightarrow> bool" where
  "truthy PNone = False"
| "truthy (PBool b) = b"
| "truthy (PInt n) = (n \<noteq> 0)"
| "truthy (PFloat x) = (x \<noteq> 0)"
| "truthy (PStr s) = (s \<noteq> [])"
| "truthy (PList xs) = (xs \<noteq> [])"
| "truthy (PDict d) = (d \<noteq> [])"
| "truthy (PEvent b) = True"
| "truthy (PObject n) = True"

text \<open>\<^verbatim>\<open>data[key]\<close> with a string key: a dict is looked up, anything else cannot be.\<close>

fun subscript :: "pyval \<Rightarrow> string \<Rightarrow> pyval result" where
  "subscript (PDict d) k = (case map_of d k of None \<Rightarrow> Raises (KeyError k) | Some v \<Rightarrow> Returns v)"
| "subscript v k = Raises TypeError"

text \<open>\<^verbatim>\<open>ev.set()\<close>: an Event gets its flag raised; no other value here has the method.\<close>

fun event_set :: "pyval \<Rightarrow> pyval result" where
  "event_set (PEvent b) = Returns (PEvent True)"
| "event_set v = Raises (AttributeError ''set'')"

section \<open>The channel\<close>

text \<open>
  The PULL socket is the queue of messages waiting on it, oldest first. A message is
  its payload: bytes that decode to a JSON value, or bytes that do not. A call sees the
  queue as it is when the call starts (the driver is another process; what it sends
  later is in the queue of a later call).
\<close>

datatype wire = Payload pyval | Malformed

text \<open>\<^verbatim>\<open>socket.recv_json(flags=zmq.NOBLOCK)\<close>: the result and the queue left.\<close>

fun recv_json :: "wire list \<Rightarrow> pyval result \<times> wire list" where
  "recv_json [] = (Raises Again, [])"
| "recv_json (Payload v # q) = (Returns v, q)"
| "recv_json (Malformed # q) = (Raises JSONDecodeError, q)"

section \<open>The instance\<close>

text \<open>
  The attributes of a \<^verbatim>\<open>BAlertX24_Interface\<close> that its methods read or write. An
  attribute that has not been assigned is \<open>None\<close>, and reading it raises
  \<^verbatim>\<open>AttributeError\<close>. \<open>license_path\<close> and \<open>term_event\<close> are read by
  \<^verbatim>\<open>start_stream\<close> and \<^verbatim>\<open>stop_stream\<close>; no line of the class assigns them.
  \<open>device_nominal_sampling_rate\<close> is left to the base class.
\<close>

record BAlertX24_Interface =
  stream_name :: "pyval option"
  stream_type :: "pyval option"
  stream_path :: "pyval option"
  ch_names :: "pyval option"
  context' :: "pyval option"
  socket :: "wire list option"
  port :: "string option"
  device_process :: "pyval option"
  terminate_event :: "pyval option"
  device_available :: "pyval option"
  device_nominal_sampling_rate :: "pyval option"
  license_path :: "pyval option"
  term_event :: "pyval option"

definition getattr :: "'a option \<Rightarrow> string \<Rightarrow> 'a result" where
  "getattr field name = (case field of None \<Rightarrow> Raises (AttributeError name) | Some v \<Rightarrow> Returns v)"

text \<open>The object before any attribute is assigned.\<close>

definition new_object :: BAlertX24_Interface where
  "new_object =
     \<lparr>stream_name = None, stream_type = None, stream_path = None, ch_names = None,
      context' = None, socket = None, port = None, device_process = None,
      terminate_event = None, device_available = None,
      device_nominal_sampling_rate = None, license_path = None, term_event = None\<rparr>"

section \<open>stop_stream\<close>

text \<open>
  Lines 61--65: receive until \<^verbatim>\<open>zmq.error.Again\<close>, dropping what is received. Only
  \<open>Again\<close> is caught; any other exception of the receive leaves the loop and the method.
\<close>

lemma recv_json_shorter: "recv_json q = (Returns v, q') \<Longrightarrow> length q' < length q"
  by (cases q rule: recv_json.cases) auto

function flush :: "wire list \<Rightarrow> unit result \<times> wire list" where
  "flush q =
     (case recv_json q of
        (Returns v, q') \<Rightarrow> flush q'
      | (Raises e, q') \<Rightarrow> if e = Again then (Returns (), q') else (Raises e, q'))"
  by pat_completeness auto
termination
  by (relation "measure length") (auto dest: recv_json_shorter [OF sym])

definition stop_stream :: "BAlertX24_Interface \<Rightarrow> unit result \<times> BAlertX24_Interface" where
  "stop_stream self =
     (case getattr (term_event self) ''term_event'' of
        Raises e \<Rightarrow> (Raises e, self)
      | Returns te \<Rightarrow>
          (case (if truthy te
                 then (case getattr (terminate_event self) ''terminate_event'' of
                         Raises e \<Rightarrow> (Raises e, self)
                       | Returns ev \<Rightarrow>
                           (case event_set ev of
                              Raises e \<Rightarrow> (Raises e, self)
                            | Returns ev' \<Rightarrow> (Returns (), self\<lparr>terminate_event := Some ev'\<rparr>)))
                 else (Returns (), self)) of
             (Raises e, self1) \<Rightarrow> (Raises e, self1)
           | (Returns u, self1) \<Rightarrow>
               (let self2 = self1\<lparr>device_available := Some (PBool False)\<rparr> in
                case getattr (socket self2) ''socket'' of
                  Raises e \<Rightarrow> (Raises e, self2)
                | Returns q \<Rightarrow>
                    (case flush q of (r, q') \<Rightarrow> (r, self2\<lparr>socket := Some q'\<rparr>)))))"

declare flush.simps [simp del]

section \<open>start_stream\<close>

text \<open>
  \<^verbatim>\<open>get_executable_path\<close>: \<open>base_dir\<close> is the directory of the module file
  (\<^verbatim>\<open>os.path.dirname(os.path.abspath(__file__))\<close>), a parameter here.
  \<^verbatim>\<open>os.path.join\<close> is the Windows one (\<^verbatim>\<open>ntpath.join\<close>) for a relative right part:
  it sets a drive letter and its colon aside, and puts a backslash between the two
  parts unless what is left of the first is empty or ends with a separator. So
  \<^verbatim>\<open>join('C:', 'x64')\<close> is \<^verbatim>\<open>'C:x64'\<close>.
\<close>

definition drive_rest :: "string \<Rightarrow> string" where
  "drive_rest p = (case p of c # d # r \<Rightarrow> if d = CHR '':'' then r else p | _ \<Rightarrow> p)"

definition path_join :: "string \<Rightarrow> string \<Rightarrow> string" where
  "path_join a b =
     (let r = drive_rest a
      in if r \<noteq> [] \<and> last r \<noteq> CHR 0x5C \<and> last r \<noteq> CHR ''/'' then a @ [CHR 0x5C] @ b
         else a @ b)"

definition get_executable_path :: "string \<Rightarrow> string" where
  "get_executable_path base_dir =
     path_join (path_join (path_join base_dir ''x64'') ''Debug'') ''BAlertX24.exe''"

text \<open>
  Lines 49--53, all of the method. \<open>args\<close> is a local variable: the method ends after
  building it, and nothing is done with it.
\<close>

definition start_stream :: "string \<Rightarrow> BAlertX24_Interface \<Rightarrow> unit result \<times> BAlertX24_Interface" where
  "start_stream base_dir self =
     (let self1 = self\<lparr>terminate_event := Some (PEvent False)\<rparr> in
      case getattr (port self1) ''port'' of
        Raises e \<Rightarrow> (Raises e, self1)
      | Returns p \<Rightarrow>
          (let args = [PStr (get_executable_path base_dir), PStr p] in
           case getattr (license_path self1) ''license_path'' of
             Raises e \<Rightarrow> (Raises e, self1)
           | Returns lp \<Rightarrow>
               (let args = (if truthy lp then args @ [PStr ''--license'', lp] else args)
                in (Returns (), self1))))"

definition get_sampling_rate :: "BAlertX24_Interface \<Rightarrow> pyval result" where
  "get_sampling_rate self = getattr (device_nominal_sampling_rate self) ''device_nominal_sampling_rate''"

definition is_device_available :: "BAlertX24_Interface \<Rightarrow> pyval result" where
  "is_device_available self = getattr (device_available self) ''device_available''"

section \<open>process_frames: the receive loop\<close>

type_synonym acc = "pyval list \<times> pyval list \<times> pyval list"

text \<open>
  Lines 75--81, the body of the \<^verbatim>\<open>try\<close>: one receive and its classification. The
  lists \<open>frames\<close>, \<open>timestamps\<close>, \<open>messages\<close> are local to the call.
  \<^verbatim>\<open>data['t']\<close> is read once here: the read of line 79 gives what the read of line 76
  gave.
\<close>

definition try_body :: "acc \<Rightarrow> BAlertX24_Interface \<Rightarrow> acc result \<times> BAlertX24_Interface" where
  "try_body acc self =
     (case acc of (frames, timestamps, messages) \<Rightarrow>
       (case getattr (socket self) ''socket'' of
          Raises e \<Rightarrow> (Raises e, self)
        | Returns q \<Rightarrow>
            (case recv_json q of
               (Raises e, q') \<Rightarrow> (Raises e, self\<lparr>socket := Some q'\<rparr>)
             | (Returns data, q') \<Rightarrow>
                 (let self1 = self\<lparr>socket := Some q'\<rparr> in
                  case subscript data ''t'' of
                    Raises e \<Rightarrow> (Raises e, self1)
                  | Returns t \<Rightarrow>
                      if t = PStr ''e'' then
                        (case subscript data ''message'' of
                           Raises e \<Rightarrow> (Raises e, self1)
                         | Returns m \<Rightarrow>
                             (case stop_stream self1 of
                                (Raises e, self2) \<Rightarrow> (Raises e, self2)
                              | (Returns u, self2) \<Rightarrow>
                                  (Returns (frames, timestamps, messages @ [m]), self2)))
                      else if t = PStr ''d'' then
                        (case subscript data ''frame'' of
                           Raises e \<Rightarrow> (Raises e, self1)
                         | Returns f \<Rightarrow>
                             (case subscript data ''timestamp'' of
                                Raises e \<Rightarrow> (Raises e, self1)
                              | Returns ts \<Rightarrow>
                                  (Returns (frames @ [f], timestamps @ [ts], messages), self1)))
                      else (Returns (frames, timestamps, messages), self1)))))"

definition queued :: "BAlertX24_Interface \<Rightarrow> nat" where
  "queued self = (case socket self of None \<Rightarrow> 0 | Some q \<Rightarrow> length q)"

lemma flush_simps [simp]:
  "flush [] = (Returns (), [])"
  "flush (Payload v # q) = flush q"
  "flush (Malformed # q) = (Raises JSONDecodeError, q)"
  by (simp_all add: flush.simps [of "[]"] flush.simps [of "Payload v # q"]
        flush.simps [of "Malformed # q"])

lemma flush_length: "length (snd (flush q)) \<le> length q"
proof (induction q)
  case Nil
  then show ?case by simp
next
  case (Cons m q)
  then show ?case by (cases m) simp_all
qed

lemma stop_stream_queued: "queued (snd (stop_stream self)) \<le> queued self"
proof (cases "socket self")
  case None
  then show ?thesis
    by (auto simp: stop_stream_def queued_def getattr_def Let_def
        split: option.splits result.splits prod.splits)
next
  case (Some q)
  have "length (snd (flush q)) \<le> length q" by (rule flush_length)
  with Some show ?thesis
    by (auto simp: stop_stream_def queued_def getattr_def Let_def
        split: option.splits result.splits prod.splits if_splits)
qed

lemma try_body_queued:
  assumes ok: "try_body acc self = (Returns acc', self')"
  shows "queued self' < queued self"
proof -
  obtain frames timestamps messages where acc: "acc = (frames, timestamps, messages)"
    by (cases acc) auto
  from ok obtain q where q: "socket self = Some q"
    by (cases "socket self") (auto simp: try_body_def acc getattr_def)
  from ok q obtain data q' where r: "recv_json q = (Returns data, q')"
    by (cases "recv_json q"; cases "fst (recv_json q)")
       (auto simp: try_body_def acc getattr_def)
  have lt: "length q' < length q" using r by (rule recv_json_shorter)
  have st: "queued (snd (stop_stream (self\<lparr>socket := Some q'\<rparr>))) \<le> length q'"
    using stop_stream_queued [of "self\<lparr>socket := Some q'\<rparr>"] by (simp add: queued_def)
  from ok q r lt st show ?thesis
    by (auto simp: try_body_def acc getattr_def queued_def Let_def
        split: result.splits prod.splits if_splits)
qed

text \<open>
  Lines 73--84: \<^verbatim>\<open>while True\<close> around the \<^verbatim>\<open>try\<close>. \<^verbatim>\<open>except zmq.Again\<close> ends the
  loop; any other exception leaves the method. The loop ends because each pass that
  does not raise takes a message off the queue.
\<close>

function recv_loop :: "acc \<Rightarrow> BAlertX24_Interface \<Rightarrow> acc result \<times> BAlertX24_Interface" where
  "recv_loop acc self =
     (case try_body acc self of
        (Returns acc', self') \<Rightarrow> recv_loop acc' self'
      | (Raises e, self') \<Rightarrow> if e = Again then (Returns acc, self') else (Raises e, self'))"
  by pat_completeness auto
termination
  by (relation "measure (\<lambda>(acc, self). queued self)") (auto dest: try_body_queued [OF sym])

declare recv_loop.simps [simp del]

section \<open>NumPy arrays\<close>

text \<open>
  An \<^verbatim>\<open>ndarray\<close> is its shape and its elements in row-major (C) order, the layout
  \<^verbatim>\<open>np.array\<close> gives a new array; \<open>length (data a) = prod_list (shape a)\<close>. The
  functions below are the NumPy operations that \<^verbatim>\<open>process_frames\<close> calls, after NumPy's
  documentation (NumPy 1.24 and later, where a ragged nested list is an error).
\<close>

record ndarray =
  shape :: "nat list"
  data :: "pyval list"

definition ndim :: "ndarray \<Rightarrow> nat" where
  "ndim a = length (shape a)"

text \<open>
  \<^verbatim>\<open>np.array(v)\<close>: a list adds an axis of its length when all its
  items have one shape; numbers, strings, dicts and \<^verbatim>\<open>None\<close> are items of shape \<open>()\<close>.
\<close>

fun np_shape :: "pyval \<Rightarrow> nat list option" where
  "np_shape (PList xs) =
     (case map np_shape xs of
        [] \<Rightarrow> Some [0]
      | s # ss \<Rightarrow>
          (case s of
             None \<Rightarrow> None
           | Some sh \<Rightarrow> if list_all (\<lambda>s'. s' = Some sh) ss then Some (length xs # sh) else None))"
| "np_shape v = Some []"

fun np_flat :: "pyval \<Rightarrow> pyval list" where
  "np_flat (PList xs) = concat (map np_flat xs)"
| "np_flat v = [v]"

definition np_array :: "pyval \<Rightarrow> ndarray result" where
  "np_array v =
     (case np_shape v of
        None \<Rightarrow> Raises ValueError
      | Some sh \<Rightarrow> Returns \<lparr>shape = sh, data = np_flat v\<rparr>)"

text \<open>
  \<^verbatim>\<open>a.astype(np.float64)\<close> casts the elements one by one. The cast of one element,
  \<open>float64\<close>, is a parameter: binary floating point is outside this model, and no
  property below depends on what a cast returns.
\<close>

fun map_result :: "('a \<Rightarrow> 'b result) \<Rightarrow> 'a list \<Rightarrow> 'b list result" where
  "map_result f [] = Returns []"
| "map_result f (x # xs) =
     (case f x of
        Raises e \<Rightarrow> Raises e
      | Returns y \<Rightarrow> (case map_result f xs of Raises e \<Rightarrow> Raises e | Returns ys \<Rightarrow> Returns (y # ys)))"

definition astype :: "(pyval \<Rightarrow> pyval result) \<Rightarrow> ndarray \<Rightarrow> ndarray result" where
  "astype float64 a =
     (case map_result float64 (data a) of
        Raises e \<Rightarrow> Raises e
      | Returns xs \<Rightarrow> Returns (a\<lparr>data := xs\<rparr>))"

text \<open>The cast used where a concrete one is needed: JSON numbers and booleans.\<close>

fun float64_of_number :: "pyval \<Rightarrow> pyval result" where
  "float64_of_number (PInt n) = Returns (PFloat (of_int n))"
| "float64_of_number (PFloat x) = Returns (PFloat x)"
| "float64_of_number (PBool b) = Returns (PFloat (if b then 1 else 0))"
| "float64_of_number v = Raises TypeError"

text \<open>Row-major position of a multi-index, and the multi-index of a position.\<close>

fun ravel :: "nat list \<Rightarrow> nat list \<Rightarrow> nat" where
  "ravel (n # ns) (i # idx) = i * prod_list ns + ravel ns idx"
| "ravel ns idx = 0"

fun unravel :: "nat list \<Rightarrow> nat \<Rightarrow> nat list" where
  "unravel [] k = []"
| "unravel (n # ns) k = (k div prod_list ns) # unravel ns (k mod prod_list ns)"

text \<open>\<open>item a idx\<close> is \<^verbatim>\<open>a[i0, i1, ...]\<close> for an index inside the shape.\<close>

definition item :: "ndarray \<Rightarrow> nat list \<Rightarrow> pyval" where
  "item a idx = data a ! ravel (shape a) idx"

text \<open>
  \<^verbatim>\<open>a.transpose(axes)\<close>: axis \<open>j\<close> of the result is axis \<open>axes ! j\<close> of \<open>a\<close>, so the
  element at \<open>idx\<close> of the result is the element of \<open>a\<close> whose index has \<open>idx ! j\<close> at place
  \<open>axes ! j\<close>. \<open>axes\<close> must be a permutation of the axes.
\<close>

fun position :: "nat \<Rightarrow> nat list \<Rightarrow> nat" where
  "position d [] = 0"
| "position d (x # xs) = (if x = d then 0 else Suc (position d xs))"

definition source_index :: "nat list \<Rightarrow> nat list \<Rightarrow> nat list" where
  "source_index axes idx = map (\<lambda>d. idx ! position d axes) [0..<length axes]"

definition np_transpose :: "ndarray \<Rightarrow> nat list \<Rightarrow> ndarray result" where
  "np_transpose a axes =
     (if sort axes = [0..<ndim a] then
        (let sh = map (\<lambda>ax. shape a ! ax) axes
         in Returns \<lparr>shape = sh,
                     data = map (\<lambda>k. item a (source_index axes (unravel sh k))) [0..<prod_list sh]\<rparr>)
      else Raises ValueError)"

text \<open>\<^verbatim>\<open>a[i]\<close> for \<open>i \<ge> 0\<close>: the \<open>i\<close>-th block along the first axis.\<close>

definition getitem :: "ndarray \<Rightarrow> nat \<Rightarrow> ndarray result" where
  "getitem a i =
     (case shape a of
        [] \<Rightarrow> Raises IndexError
      | n # ns \<Rightarrow>
          if i < n
          then Returns \<lparr>shape = ns, data = take (prod_list ns) (drop (i * prod_list ns) (data a))\<rparr>
          else Raises IndexError)"

text \<open>\<^verbatim>\<open>a[:, j]\<close> for \<open>j \<ge> 0\<close>: block \<open>j\<close> of every block along the first axis.\<close>

definition getitem_col :: "ndarray \<Rightarrow> nat \<Rightarrow> ndarray result" where
  "getitem_col a j =
     (case shape a of
        n # m # ns \<Rightarrow>
          if j < m
          then Returns \<lparr>shape = n # ns,
                        data = concat (map (\<lambda>i. take (prod_list ns)
                                                 (drop ((i * m + j) * prod_list ns) (data a)))
                                        [0..<n])\<rparr>
          else Raises IndexError
      | _ \<Rightarrow> Raises IndexError)"

section \<open>process_frames\<close>

text \<open>
  What the method returns in first and second place: the Python lists \<open>frames\<close> and
  \<open>timestamps\<close> themselves when no data message came, arrays otherwise.
\<close>

datatype pyseq = PyList "pyval list" | NdArray ndarray

text \<open>\<^verbatim>\<open>len\<close> of either.\<close>

fun len :: "pyseq \<Rightarrow> nat result" where
  "len (PyList xs) = Returns (length xs)"
| "len (NdArray a) = (case shape a of [] \<Rightarrow> Raises TypeError | n # ns \<Rightarrow> Returns n)"

text \<open>
  Lines 70--99. The tuple of a \<^verbatim>\<open>return\<close> is evaluated left to right: the frames
  first, then the timestamps.
\<close>

definition process_frames ::
  "(pyval \<Rightarrow> pyval result) \<Rightarrow> BAlertX24_Interface
     \<Rightarrow> (pyseq \<times> pyseq \<times> pyval list) result \<times> BAlertX24_Interface" where
  "process_frames float64 self =
     (case recv_loop ([], [], []) self of
        (Raises e, self') \<Rightarrow> (Raises e, self')
      | (Returns (frames, timestamps, messages), self') \<Rightarrow>
          (if length frames > 0 then
             bind_result (bind_result (np_array (PList frames)) (astype float64)) (\<lambda>frames_array.
               if ndim frames_array = 3 then
                 bind_result (bind_result (np_transpose frames_array [2, 1, 0]) (\<lambda>a. getitem a 0)) (\<lambda>m.
                 bind_result (bind_result (np_array (PList timestamps)) (\<lambda>a. getitem_col a 0)) (\<lambda>ts.
                 Returns (NdArray m, NdArray ts, messages)))
               else if ndim frames_array = 2 then
                 bind_result (np_transpose frames_array [1, 0]) (\<lambda>m.
                 bind_result (bind_result (np_array (PList timestamps)) (\<lambda>a. getitem_col a 0)) (\<lambda>ts.
                 Returns (NdArray m, NdArray ts, messages)))
               else
                 bind_result (bind_result (np_array (PList timestamps)) (\<lambda>a. getitem_col a 0)) (\<lambda>ts.
                 Returns (NdArray frames_array, NdArray ts, messages)))
           else Returns (PyList frames, PyList timestamps, messages),
           self'))"

section \<open>The constructor\<close>

text \<open>
  What the constructor reads and changes outside the object: the host's
  \<^verbatim>\<open>platform.system()\<close>, the port the operating system gives the next socket bound to
  port 0, the number of ZMQ contexts created and the ports bound so far.
\<close>

record world =
  platform_system :: string
  ephemeral_port :: string
  contexts :: nat
  bound_ports :: "string list"

text \<open>
  The names the module binds at top level (its imports, its function and its class).
  A name of a function body that is neither a parameter nor assigned there is looked up
  among the module's globals when the line runs (no builtin is called
  \<^verbatim>\<open>_license_path\<close>). \<open>extra\<close> below stands for names put into the module's namespace from
  outside; the module itself adds none.
\<close>

definition module_globals :: "(string \<times> pyval) list" where
  "module_globals =
     map (\<lambda>n. (n, PObject n))
       [''time'', ''zmq'', ''subprocess'', ''Process'', ''Event'', ''DeviceInterface'',
        ''get_clock_time'', ''np'', ''os'', ''platform'', ''dialog_popup'',
        ''get_executable_path'', ''BAlertX24_Interface'']"

definition load_global :: "(string \<times> pyval) list \<Rightarrow> string \<Rightarrow> pyval result" where
  "load_global g name = (case map_of g name of None \<Rightarrow> Raises (NameError name) | Some v \<Rightarrow> Returns v)"

text \<open>\<^verbatim>\<open>s.split(c)\<close> for a one-character separator.\<close>

fun split_on :: "char \<Rightarrow> string \<Rightarrow> string list" where
  "split_on c [] = [[]]"
| "split_on c (x # xs) =
     (if x = c then [] # split_on c xs
      else (case split_on c xs of [] \<Rightarrow> [[x]] | r # rs \<Rightarrow> (x # r) # rs))"

definition fixed_ch_names :: "string list" where
  "fixed_ch_names =
     [''Fp1'', ''F7'', ''F8'', ''T4'', ''T6'', ''T5'', ''T3'', ''Fp2'', ''O1'', ''P3'', ''Pz'',
      ''F3'', ''Fz'', ''F4'', ''C4'', ''P4'', ''POz'', ''C3'', ''Cz'', ''O2'', ''EKG'', ''AUX1'',
      ''AUX2'', ''AUX3'']"

text \<open>
  Lines 18--47. \<open>base_init\<close> is \<^verbatim>\<open>DeviceInterface.__init__\<close>, which is not in this module:
  a parameter, called with the four arguments of lines 24--28. The parameters of the
  constructor are \<open>p_device_name\<close> for \<^verbatim>\<open>_device_name\<close> and so on.
\<close>

definition init ::
  "(string \<times> pyval) list
     \<Rightarrow> (pyval \<Rightarrow> pyval \<Rightarrow> pyval \<Rightarrow> pyval \<Rightarrow> BAlertX24_Interface \<Rightarrow> unit result \<times> BAlertX24_Interface)
     \<Rightarrow> pyval \<Rightarrow> pyval \<Rightarrow> pyval \<Rightarrow> pyval \<Rightarrow> pyval
     \<Rightarrow> world \<Rightarrow> BAlertX24_Interface \<Rightarrow> unit result \<times> world \<times> BAlertX24_Interface" where
  "init extra base_init p_device_name p_device_type p_device_nominal_sampling_rate p_ch_names
        p_license_path w self =
     (case base_init p_device_name p_device_type p_device_nominal_sampling_rate (PBool False) self of
        (Raises e, self0) \<Rightarrow> (Raises e, w, self0)
      | (Returns u, self0) \<Rightarrow>
          if platform_system w \<noteq> ''Windows'' then
            (Raises (EnvironmentError
               ''Platform Not Supported: BAlertX24 is only supported on Windows''), w, self0)
          else
            (let self1 = self0\<lparr>stream_name := Some p_device_name\<rparr>;
                 self2 = self1\<lparr>stream_type := Some p_device_type\<rparr>
             in case load_global (module_globals @ extra) ''_license_path'' of
                  Raises e \<Rightarrow> (Raises e, w, self2)
                | Returns lp \<Rightarrow>
                    (let self3 = self2\<lparr>stream_path := Some lp\<rparr>;
                         self4 = self3\<lparr>ch_names := Some (PList (map PStr fixed_ch_names))\<rparr>;
                         w1 = w\<lparr>contexts := Suc (contexts w)\<rparr>;
                         self5 = self4\<lparr>context' := Some (PObject ''zmq.Context'')\<rparr>;
                         self6 = self5\<lparr>socket := Some []\<rparr>;
                         w2 = w1\<lparr>bound_ports := bound_ports w1 @ [ephemeral_port w1]\<rparr>;
                         self7 = self6\<lparr>port :=
                                   Some (last (split_on CHR '':''
                                                (''tcp://0.0.0.0:'' @ ephemeral_port w1)))\<rparr>;
                         self8 = self7\<lparr>device_process := Some PNone\<rparr>;
                         self9 = self8\<lparr>terminate_event := Some PNone\<rparr>;
                         self10 = self9\<lparr>device_available := Some (PBool False)\<rparr>
                     in (Returns (), w2, self10))))"

section \<open>Example values\<close>

text \<open>
  An instance holding what lines 34--47 assign (with port 5555 and nothing queued), and
  the sampling rate from the base class. \<open>license_path\<close> and \<open>term_event\<close> are absent.
\<close>

definition example_instance :: BAlertX24_Interface where
  "example_instance =
     new_object\<lparr>stream_name := Some (PStr ''BAlertX24''), stream_type := Some (PStr ''eeg''),
       stream_path := Some PNone, ch_names := Some (PList (map PStr fixed_ch_names)),
       context' := Some (PObject ''zmq.Context''), socket := Some [], port := Some ''5555'',
       device_process := Some PNone, terminate_event := Some PNone,
       device_available := Some (PBool False),
       device_nominal_sampling_rate := Some (PInt 256)\<rparr>"

text \<open>A base-class constructor that stores the sampling rate and returns.\<close>

definition example_base_init ::
  "pyval \<Rightarrow> pyval \<Rightarrow> pyval \<Rightarrow> pyval \<Rightarrow> BAlertX24_Interface \<Rightarrow> unit result \<times> BAlertX24_Interface" where
  "example_base_init device_name device_type rate avail self =
     (Returns (), self\<lparr>device_nominal_sampling_rate := Some rate\<rparr>)"

definition example_world :: "string \<Rightarrow> world" where
  "example_world system =
     \<lparr>platform_system = system, ephemeral_port = ''5555'', contexts = 0, bound_ports = []\<rparr>"

text \<open>A module directory as \<^verbatim>\<open>abspath\<close> gives one: drive, root, folder.\<close>

definition example_base_dir :: string where
  "example_base_dir = ''C:'' @ [CHR 0x5C] @ ''app''"

text \<open>The two messages of the example scenario.\<close>

definition example_data :: pyval where
  "example_data =
     PDict [(''t'', PStr ''d''),
            (''frame'', PList [PList [PInt 1, PInt 2], PList [PInt 3, PInt 4]]),
            (''timestamp'', PList [PList [PInt 100], PList [PInt 101]])]"

definition example_event :: pyval where
  "example_event = PDict [(''t'', PStr ''e''), (''message'', PStr ''fault'')]"

text \<open>A data message whose timestamp is a number, not an array.\<close>

definition example_scalar :: pyval where
  "example_scalar =
     PDict [(''t'', PStr ''d''), (''frame'', PList [PInt 1, PInt 2]), (''timestamp'', PInt 100)]"

text \<open>
  A data message: a dict tagged \<^verbatim>\<open>"d"\<close> that has a frame and a timestamp.
  \<open>field k d\<close> is \<^verbatim>\<open>d[k]\<close> of such a message.
\<close>

fun is_data_message :: "pyval \<Rightarrow> bool" where
  "is_data_message (PDict kv) =
     (map_of kv ''t'' = Some (PStr ''d'') \<and> map_of kv ''frame'' \<noteq> None
      \<and> map_of kv ''timestamp'' \<noteq> None)"
| "is_data_message v = False"

definition field :: "string \<Rightarrow> pyval \<Rightarrow> pyval" where
  "field k d = (case subscript d k of Returns v \<Rightarrow> v | Raises e \<Rightarrow> PNone)"

section \<open>The loops, message by message\<close>

lemma socket_update_same: "socket self = Some q \<Longrightarrow> self\<lparr>socket := Some q\<rparr> = self"
  by (cases self) simp

lemma flush_returns_empty: "flush q = (Returns u, q') \<Longrightarrow> q' = []"
proof (induction q)
  case Nil
  then show ?case by simp
next
  case (Cons m q)
  then show ?case by (cases m) simp_all
qed

lemma stop_stream_returns:
  assumes "stop_stream self = (Returns u, self')"
  shows "socket self' = Some [] \<and> device_available self' = Some (PBool False)"
  using assms flush_returns_empty
  by (fastforce simp: stop_stream_def getattr_def Let_def
      split: option.splits result.splits prod.splits if_splits)

lemma stop_stream_no_term_event:
  "term_event self = None \<Longrightarrow> stop_stream self = (Raises (AttributeError ''term_event''), self)"
  by (simp add: stop_stream_def getattr_def)

lemma recv_loop_empty: "socket self = Some [] \<Longrightarrow> recv_loop acc self = (Returns acc, self)"
  by (subst recv_loop.simps)
     (simp add: try_body_def getattr_def socket_update_same split: prod.splits)

lemma recv_loop_malformed:
  "socket self = Some (Malformed # q) \<Longrightarrow>
   recv_loop acc self = (Raises JSONDecodeError, self\<lparr>socket := Some q\<rparr>)"
  by (subst recv_loop.simps) (simp add: try_body_def getattr_def split: prod.splits)

lemma recv_loop_data:
  assumes "is_data_message d" and "socket self = Some (Payload d # q)"
  shows "recv_loop (fr, ts, ms) self =
         recv_loop (fr @ [field ''frame'' d], ts @ [field ''timestamp'' d], ms)
           (self\<lparr>socket := Some q\<rparr>)"
proof -
  from assms(1) obtain kv where d: "d = PDict kv" by (cases d) auto
  with assms show ?thesis
    by (subst recv_loop.simps) (auto simp: try_body_def getattr_def field_def)
qed

lemma recv_loop_data_list:
  "list_all is_data_message ds \<Longrightarrow> socket self = Some (map Payload ds @ q) \<Longrightarrow>
   recv_loop (fr, ts, ms) self =
   recv_loop (fr @ map (field ''frame'') ds, ts @ map (field ''timestamp'') ds, ms)
     (self\<lparr>socket := Some q\<rparr>)"
proof (induction ds arbitrary: fr ts self)
  case Nil
  then show ?case by (simp add: socket_update_same)
next
  case (Cons d ds)
  have "recv_loop (fr, ts, ms) self =
        recv_loop (fr @ [field ''frame'' d], ts @ [field ''timestamp'' d], ms)
          (self\<lparr>socket := Some (map Payload ds @ q)\<rparr>)"
    using Cons.prems by (intro recv_loop_data) simp_all
  also have "\<dots> = recv_loop ((fr @ [field ''frame'' d]) @ map (field ''frame'') ds,
                        (ts @ [field ''timestamp'' d]) @ map (field ''timestamp'') ds, ms)
                      (self\<lparr>socket := Some (map Payload ds @ q), socket := Some q\<rparr>)"
    using Cons.prems by (intro Cons.IH) simp_all
  finally show ?case by simp
qed

lemma recv_loop_all_data:
  assumes "list_all is_data_message ds" and "socket self = Some (map Payload ds)"
  shows "recv_loop ([], [], []) self =
         (Returns (map (field ''frame'') ds, map (field ''timestamp'') ds, []),
          self\<lparr>socket := Some []\<rparr>)"
proof -
  have "recv_loop ([], [], []) self =
        recv_loop ([] @ map (field ''frame'') ds, [] @ map (field ''timestamp'') ds, [])
          (self\<lparr>socket := Some []\<rparr>)"
    using assms by (intro recv_loop_data_list) simp_all
  then show ?thesis by (simp add: recv_loop_empty)
qed

lemma recv_loop_event:
  assumes "map_of kv ''t'' = Some (PStr ''e'')" and "map_of kv ''message'' = Some m"
    and "socket self = Some (Payload (PDict kv) # q)"
    and "stop_stream (self\<lparr>socket := Some q\<rparr>) = (Returns (), self')"
  shows "recv_loop (fr, ts, ms) self = (Returns (fr, ts, ms @ [m]), self')"
proof -
  have "recv_loop (fr, ts, ms) self = recv_loop (fr, ts, ms @ [m]) self'"
    using assms by (subst recv_loop.simps) (simp add: try_body_def getattr_def)
  moreover have "socket self' = Some []" using stop_stream_returns [OF assms(4)] by simp
  ultimately show ?thesis by (simp add: recv_loop_empty)
qed

lemma recv_loop_event_raises:
  assumes "map_of kv ''t'' = Some (PStr ''e'')" and "map_of kv ''message'' = Some m"
    and "socket self = Some (Payload (PDict kv) # q)"
    and "stop_stream (self\<lparr>socket := Some q\<rparr>) = (Raises e, self')" and "e \<noteq> Again"
  shows "recv_loop (fr, ts, ms) self = (Raises e, self')"
  using assms by (subst recv_loop.simps) (simp add: try_body_def getattr_def)

lemma process_frames_event_no_term_event:
  assumes "is_data_message d" and "map_of kv ''t'' = Some (PStr ''e'')"
    and "map_of kv ''message'' = Some m"
    and "socket self = Some [Payload d, Payload (PDict kv)]" and "term_event self = None"
  shows "process_frames float64 self =
         (Raises (AttributeError ''term_event''), self\<lparr>socket := Some []\<rparr>)"
proof -
  have "recv_loop ([], [], []) self =
        recv_loop ([] @ [field ''frame'' d], [] @ [field ''timestamp'' d], [])
          (self\<lparr>socket := Some [Payload (PDict kv)]\<rparr>)"
    using assms(1,4) by (rule recv_loop_data)
  also have "\<dots> = (Raises (AttributeError ''term_event''),
                    self\<lparr>socket := Some [Payload (PDict kv)], socket := Some []\<rparr>)"
    using assms(2,3,5)
    by (intro recv_loop_event_raises [where q = "[]"] stop_stream_no_term_event) simp_all
  finally show ?thesis by (simp add: process_frames_def)
qed

lemma upt_3: "[0..<3] = [0, 1, 2]" and upt_2: "[0..<2] = [0, 1]"
  by (simp_all add: upt_rec)

text \<open>The example scenario, on an instance on which \<open>stop_stream\<close> returns.\<close>

lemma example_scenario:
  assumes "socket self = Some [Payload example_data, Payload example_event]"
    and "stop_stream (self\<lparr>socket := Some []\<rparr>) = (Returns (), self')"
  shows "process_frames float64_of_number self =
           (Returns (NdArray \<lparr>shape = [2, 1], data = [PFloat 1, PFloat 3]\<rparr>,
                     NdArray \<lparr>shape = [1, 1], data = [PInt 100]\<rparr>,
                     [PStr ''fault'']), self')"
proof -
  have d: "is_data_message example_data" by (simp add: example_data_def)
  have "recv_loop ([], [], []) self =
        recv_loop ([field ''frame'' example_data], [field ''timestamp'' example_data], [])
          (self\<lparr>socket := Some [Payload example_event]\<rparr>)"
    using recv_loop_data [OF d assms(1), of "[]" "[]" "[]"] by simp
  also have "\<dots> = (Returns ([field ''frame'' example_data], [field ''timestamp'' example_data],
                       [PStr ''fault'']), self')"
    using assms(2)
    by (intro recv_loop_event [where kv = "[(''t'', PStr ''e''), (''message'', PStr ''fault'')]"
          and q = "[]" and ms = "[]", simplified])
       (simp_all add: example_event_def)
  finally have loop: "recv_loop ([], [], []) self =
      (Returns ([PList [PList [PInt 1, PInt 2], PList [PInt 3, PInt 4]]],
                [PList [PList [PInt 100], PList [PInt 101]]], [PStr ''fault'']), self')"
    by (simp add: field_def example_data_def)
  show ?thesis
    by (simp add: process_frames_def loop bind_result_def np_array_def astype_def ndim_def
        np_transpose_def getitem_def getitem_col_def item_def source_index_def upt_3 upt_2 Let_def)
qed

lemma example_stop_stream:
  "stop_stream (example_instance\<lparr>term_event := Some PNone, socket := Some []\<rparr>) =
     (Returns (), example_instance\<lparr>term_event := Some PNone\<rparr>)"
  by (simp add: stop_stream_def example_instance_def new_object_def getattr_def)

section \<open>The claims\<close>

subsection \<open>C1: the example scenario\<close>

text \<open>
  Claim C1 says that for the data message \<^verbatim>\<open>{t:"d", frame:[[1,2],[3,4]],
  timestamp:[[100],[101]]}\<close> followed by the event message \<^verbatim>\<open>{t:"e", message:"fault"}\<close>
  one call of \<^verbatim>\<open>process_frames\<close> returns the matrix \<open>[[1,3],[2,4]]\<close> of shape 2 by 2,
  the timestamps \<open>[100,101]\<close> and the messages \<open>["fault"]\<close>, after calling
  \<^verbatim>\<open>stop_stream\<close>. The code stacks one frame per message, so the stacked array has
  shape (1, 2, 2) and the 3-D branch applies. As amended: on an instance on which
  \<^verbatim>\<open>stop_stream\<close> returns, the call returns the 2 by 1 matrix \<open>[[1],[3]]\<close>, the
  timestamp array \<open>[[100]]\<close> of shape 1 by 1 and the messages \<open>["fault"]\<close>, and leaves
  the instance as \<^verbatim>\<open>stop_stream\<close> left it: availability false, nothing queued.
\<close>

theorem process_frames_example:
  assumes "socket self = Some [Payload example_data, Payload example_event]"
    and "stop_stream (self\<lparr>socket := Some []\<rparr>) = (Returns (), self')"
  shows "process_frames float64_of_number self =
           (Returns (NdArray \<lparr>shape = [2, 1], data = [PFloat 1, PFloat 3]\<rparr>,
                     NdArray \<lparr>shape = [1, 1], data = [PInt 100]\<rparr>,
                     [PStr ''fault'']), self')
         \<and> device_available self' = Some (PBool False) \<and> socket self' = Some []"
  using example_scenario [OF assms] stop_stream_returns [OF assms(2)] by simp

theorem process_frames_example_witness:
  "process_frames float64_of_number
     (example_instance\<lparr>term_event := Some PNone,
        socket := Some [Payload example_data, Payload example_event]\<rparr>) =
   (Returns (NdArray \<lparr>shape = [2, 1], data = [PFloat 1, PFloat 3]\<rparr>,
             NdArray \<lparr>shape = [1, 1], data = [PInt 100]\<rparr>,
             [PStr ''fault'']),
    example_instance\<lparr>term_event := Some PNone\<rparr>)"
proof -
  have a: "socket (example_instance\<lparr>term_event := Some PNone,
        socket := Some [Payload example_data, Payload example_event]\<rparr>) =
      Some [Payload example_data, Payload example_event]"
    by simp
  have b: "stop_stream (example_instance\<lparr>term_event := Some PNone,
        socket := Some [Payload example_data, Payload example_event]\<rparr>\<lparr>socket := Some []\<rparr>) =
      (Returns (), example_instance\<lparr>term_event := Some PNone\<rparr>)"
    using example_stop_stream by simp
  show ?thesis using process_frames_example [OF a b] by simp
qed

text \<open>
  The claimed batch is not what the call returns, on the instance with \<open>term_event\<close>
  present; on the instance as lines 34--47 leave it the call raises.
\<close>

theorem process_frames_example_counterexample:
  "fst (process_frames float64_of_number
     (example_instance\<lparr>term_event := Some PNone,
        socket := Some [Payload example_data, Payload example_event]\<rparr>)) \<noteq>
   Returns (NdArray \<lparr>shape = [2, 2], data = [PFloat 1, PFloat 3, PFloat 2, PFloat 4]\<rparr>,
            NdArray \<lparr>shape = [2], data = [PInt 100, PInt 101]\<rparr>,
            [PStr ''fault''])
   \<and> fst (process_frames float64_of_number
     (example_instance\<lparr>socket := Some [Payload example_data, Payload example_event]\<rparr>)) =
   Raises (AttributeError ''term_event'')"
proof -
  have b: "stop_stream (example_instance\<lparr>term_event := Some PNone,
        socket := Some [Payload example_data, Payload example_event]\<rparr>\<lparr>socket := Some []\<rparr>) =
      (Returns (), example_instance\<lparr>term_event := Some PNone\<rparr>)"
    using example_stop_stream by simp
  have 1: "fst (process_frames float64_of_number
     (example_instance\<lparr>term_event := Some PNone,
        socket := Some [Payload example_data, Payload example_event]\<rparr>)) =
     Returns (NdArray \<lparr>shape = [2, 1], data = [PFloat 1, PFloat 3]\<rparr>,
             NdArray \<lparr>shape = [1, 1], data = [PInt 100]\<rparr>,
             [PStr ''fault''])"
    by (subst example_scenario [OF _ b]) simp_all
  have d: "is_data_message example_data" by (simp add: example_data_def)
  have 2: "fst (process_frames float64_of_number
     (example_instance\<lparr>socket := Some [Payload example_data, Payload example_event]\<rparr>)) =
   Raises (AttributeError ''term_event'')"
    by (subst process_frames_event_no_term_event
          [where d = example_data and kv = "[(''t'', PStr ''e''), (''message'', PStr ''fault'')]"
             and m = "PStr ''fault''"])
       (simp_all add: d example_event_def example_instance_def new_object_def)
  have 3: "Returns (NdArray \<lparr>shape = [2, 1], data = [PFloat 1, PFloat 3]\<rparr>,
             NdArray \<lparr>shape = [1, 1], data = [PInt 100]\<rparr>, [PStr ''fault'']) \<noteq>
         Returns (NdArray \<lparr>shape = [2, 2], data = [PFloat 1, PFloat 3, PFloat 2, PFloat 4]\<rparr>,
            NdArray \<lparr>shape = [2], data = [PInt 100, PInt 101]\<rparr>, [PStr ''fault''])"
    by simp
  show ?thesis unfolding 1 2 using 3 by simp
qed

subsection \<open>C2: the shape of the returned matrix\<close>

text \<open>Row-major positions and indices; what \<open>transpose\<close> and \<open>a[0]\<close> do to an element.\<close>

lemma ravel_less: "list_all2 (<) idx sh \<Longrightarrow> ravel sh idx < prod_list sh"
proof (induction idx sh rule: list_all2_induct)
  case Nil
  then show ?case by simp
next
  case (Cons i idx n sh)
  have "i * prod_list sh + ravel sh idx < i * prod_list sh + prod_list sh"
    using Cons.IH by simp
  also have "\<dots> = Suc i * prod_list sh" by simp
  also have "\<dots> \<le> n * prod_list sh"
    using Cons.hyps(1) by (intro mult_le_mono1) simp
  finally show ?case by simp
qed

lemma unravel_ravel: "list_all2 (<) idx sh \<Longrightarrow> unravel sh (ravel sh idx) = idx"
proof (induction idx sh rule: list_all2_induct)
  case Nil
  then show ?case by simp
next
  case (Cons i idx n sh)
  have "ravel sh idx < prod_list sh" using Cons.hyps(2) by (rule ravel_less)
  then show ?case using Cons.IH by simp
qed

lemma item_transpose:
  assumes "np_transpose a axes = Returns b" and "list_all2 (<) idx (shape b)"
  shows "item b idx = item a (source_index axes idx)"
proof -
  let ?sh = "map (\<lambda>ax. shape a ! ax) axes"
  from assms(1) have b: "b = \<lparr>shape = ?sh,
      data = map (\<lambda>k. item a (source_index axes (unravel ?sh k))) [0..<prod_list ?sh]\<rparr>"
    by (simp add: np_transpose_def Let_def split: if_splits)
  have sh: "shape b = ?sh" by (simp add: b)
  have lt: "ravel ?sh idx < prod_list ?sh" using assms(2) sh ravel_less by metis
  have "item b idx = item a (source_index axes (unravel ?sh (ravel ?sh idx)))"
    using lt by (simp add: item_def b)
  also have "unravel ?sh (ravel ?sh idx) = idx" using assms(2) sh unravel_ravel by metis
  finally show ?thesis .
qed

lemma shape_transpose:
  "np_transpose a axes = Returns b \<Longrightarrow> shape b = map (\<lambda>ax. shape a ! ax) axes"
  by (auto simp: np_transpose_def Let_def split: if_splits)

lemma getitem_0:
  assumes "getitem b 0 = Returns r"
  shows "shape r = tl (shape b)"
    and "list_all2 (<) idx (tl (shape b)) \<Longrightarrow> item r idx = item b (0 # idx)"
proof -
  from assms obtain n ns where s: "shape b = n # ns"
    and r: "r = \<lparr>shape = ns, data = take (prod_list ns) (drop 0 (data b))\<rparr>"
    by (cases "shape b") (auto simp: getitem_def split: if_splits)
  show "shape r = tl (shape b)" by (simp add: r s)
  assume "list_all2 (<) idx (tl (shape b))"
  then have "ravel ns idx < prod_list ns" using s ravel_less by simp
  then show "item r idx = item b (0 # idx)" by (simp add: item_def r s)
qed

lemma length_3: "length xs = 3 \<Longrightarrow> \<exists>a b c. xs = [a, b, c]"
  by (cases xs; cases "tl xs"; cases "tl (tl xs)") auto

lemma length_2: "length xs = 2 \<Longrightarrow> \<exists>a b. xs = [a, b]"
  by (cases xs; cases "tl xs") auto

lemma source_index_210: "source_index [2, 1, 0] [l, c, t] = [t, c, l]"
  by (simp add: source_index_def upt_3)

lemma source_index_10: "source_index [1, 0] [c, t] = [t, c]"
  by (simp add: source_index_def upt_2)

lemma frames_3d:
  assumes "ndim a = 3"
    and "bind_result (np_transpose a [2, 1, 0]) (\<lambda>b. getitem b 0) = Returns r"
  shows "shape r = [shape a ! 1, shape a ! 0]
         \<and> (\<forall>c < shape a ! 1. \<forall>t < shape a ! 0. item r [c, t] = item a [t, c, 0])"
proof -
  from assms(1) have "length (shape a) = 3" by (simp add: ndim_def)
  then obtain T C L where sa: "shape a = [T, C, L]"
    using length_3 by blast
  from assms(2) obtain b where b: "np_transpose a [2, 1, 0] = Returns b"
    and r: "getitem b 0 = Returns r"
    by (auto simp: bind_result_def split: result.splits)
  have sb: "shape b = [L, C, T]" using shape_transpose [OF b] by (simp add: sa)
  have L: "0 < L" using r sb by (auto simp: getitem_def split: if_splits)
  have sr: "shape r = [C, T]" using getitem_0(1) [OF r] sb by simp
  have "item r [c, t] = item a [t, c, 0]" if "c < C" "t < T" for c t
  proof -
    have "item r [c, t] = item b [0, c, t]"
      using that sb by (intro getitem_0(2) [OF r]) simp
    also have "\<dots> = item a (source_index [2, 1, 0] [0, c, t])"
      using that sb L by (intro item_transpose [OF b]) simp
    finally show ?thesis unfolding source_index_210 .
  qed
  then show ?thesis by (simp add: sr sa)
qed

lemma frames_2d:
  assumes "ndim a = 2" and "np_transpose a [1, 0] = Returns r"
  shows "shape r = [shape a ! 1, shape a ! 0]
         \<and> (\<forall>c < shape a ! 1. \<forall>t < shape a ! 0. item r [c, t] = item a [t, c])"
proof -
  from assms(1) have "length (shape a) = 2" by (simp add: ndim_def)
  then obtain T C where sa: "shape a = [T, C]"
    using length_2 by blast
  have sr: "shape r = [C, T]" using shape_transpose [OF assms(2)] by (simp add: sa)
  have "item r [c, t] = item a [t, c]" if "c < C" "t < T" for c t
  proof -
    have "item r [c, t] = item a (source_index [1, 0] [c, t])"
      using that sr by (intro item_transpose [OF assms(2)]) simp
    then show ?thesis unfolding source_index_10 .
  qed
  then show ?thesis by (simp add: sr sa)
qed

lemma bind_result_simps:
  "bind_result (Returns v) f = f v"
  "bind_result (Raises e) f = Raises e"
  by (simp_all add: bind_result_def)

lemma bind_result_Returns_iff:
  "bind_result r f = Returns y \<longleftrightarrow> (\<exists>v. r = Returns v \<and> f v = Returns y)"
  by (cases r) (simp_all add: bind_result_simps)

lemma process_frames_returns:
  assumes "recv_loop ([], [], []) self = (Returns (frames, timestamps, messages), self')"
    and "frames \<noteq> []"
    and "fst (process_frames float64 self) = Returns (m, ts, msgs)"
  shows "\<exists>a tsa. bind_result (np_array (PList frames)) (astype float64) = Returns a
     \<and> bind_result (np_array (PList timestamps)) (\<lambda>a. getitem_col a 0) = Returns tsa
     \<and> ts = NdArray tsa \<and> msgs = messages
     \<and> (ndim a = 3 \<longrightarrow>
          (\<exists>r. m = NdArray r
             \<and> bind_result (np_transpose a [2, 1, 0]) (\<lambda>b. getitem b 0) = Returns r))
     \<and> (ndim a = 2 \<longrightarrow> (\<exists>r. m = NdArray r \<and> np_transpose a [1, 0] = Returns r))
     \<and> (ndim a < 2 \<longrightarrow> m = NdArray a)"
  using assms
  by (auto simp add: process_frames_def bind_result_Returns_iff bind_result_simps
      simp del: One_nat_def split: if_splits)

lemma example_data_loop:
  "recv_loop ([], [], []) (example_instance\<lparr>socket := Some [Payload example_data]\<rparr>) =
     (Returns ([PList [PList [PInt 1, PInt 2], PList [PInt 3, PInt 4]]],
               [PList [PList [PInt 100], PList [PInt 101]]], []),
      example_instance)"
proof -
  have "example_instance\<lparr>socket := Some [Payload example_data]\<rparr>\<lparr>socket := Some []\<rparr>
        = example_instance"
    by (simp add: example_instance_def new_object_def)
  then show ?thesis
    using recv_loop_all_data [of "[example_data]"
        "example_instance\<lparr>socket := Some [Payload example_data]\<rparr>"]
    by (simp add: example_data_def field_def)
qed

lemma example_data_batch:
  "fst (process_frames float64_of_number
          (example_instance\<lparr>socket := Some [Payload example_data]\<rparr>)) =
     Returns (NdArray \<lparr>shape = [2, 1], data = [PFloat 1, PFloat 3]\<rparr>,
              NdArray \<lparr>shape = [1, 1], data = [PInt 100]\<rparr>, [])"
  by (simp add: process_frames_def example_data_loop bind_result_def np_array_def astype_def
      ndim_def np_transpose_def getitem_def getitem_col_def item_def source_index_def
      upt_3 upt_2 Let_def)

lemma transpose_210_returns: "ndim a = 3 \<Longrightarrow> \<exists>b. np_transpose a [2, 1, 0] = Returns b"
  by (simp add: np_transpose_def upt_3 Let_def)

lemma transpose_10_returns: "ndim a = 2 \<Longrightarrow> \<exists>b. np_transpose a [1, 0] = Returns b"
  by (simp add: np_transpose_def upt_2 Let_def)

lemma process_frames_returns_if:
  assumes loop: "recv_loop ([], [], []) self = (Returns (frames, timestamps, messages), self')"
    and ne: "frames \<noteq> []"
    and a: "bind_result (np_array (PList frames)) (astype float64) = Returns a"
    and tsa: "bind_result (np_array (PList timestamps)) (\<lambda>a. getitem_col a 0) = Returns tsa"
    and L: "ndim a = 3 \<longrightarrow> 0 < shape a ! 2"
  shows "\<exists>m. process_frames float64 self = (Returns (m, NdArray tsa, messages), self')"
proof -
  consider "ndim a = 3" | "ndim a = 2" | "ndim a \<noteq> 3" "ndim a \<noteq> 2" by blast
  then show ?thesis
  proof cases
    case 1
    then obtain b where b: "np_transpose a [2, 1, 0] = Returns b"
      using transpose_210_returns by blast
    from 1 have "length (shape a) = 3" by (simp add: ndim_def)
    then obtain T C L where sa: "shape a = [T, C, L]" using length_3 by blast
    have "shape b = [L, C, T]" using shape_transpose [OF b] by (simp add: sa)
    moreover have "0 < L" using L 1 sa by simp
    ultimately obtain r where "getitem b 0 = Returns r" by (simp add: getitem_def)
    with loop ne a tsa 1 b show ?thesis
      by (simp add: process_frames_def bind_result_simps del: One_nat_def)
  next
    case 2
    then obtain b where b: "np_transpose a [1, 0] = Returns b"
      using transpose_10_returns by blast
    with loop ne a tsa 2 show ?thesis
      by (simp add: process_frames_def bind_result_simps del: One_nat_def)
  next
    case 3
    with loop ne a tsa show ?thesis
      by (simp add: process_frames_def bind_result_simps del: One_nat_def)
  qed
qed

text \<open>
  Claim C2: for every non-empty sequence of data messages accumulated in one call of
  \<^verbatim>\<open>process_frames\<close>, if the stacked frame array has three dimensions, of shape
  (T, C, L), the returned matrix has shape (C, T) and its entry (c, t) is the input's
  element (t, c, 0); if it has two dimensions, of shape (T, C), the returned matrix is
  its transpose, of shape (C, T); if it has fewer, it is returned as it is. Here \<open>a\<close> is
  the stacked array after the cast. The first part is about every call that returns; the
  second says when a call returns: when the frames stack, the timestamps have a first
  column, and a three-dimensional stack has a lead 0.
\<close>

theorem process_frames_shape_policy:
  assumes loop: "recv_loop ([], [], []) self = (Returns (frames, timestamps, messages), self')"
    and ne: "frames \<noteq> []"
  shows "(fst (process_frames float64 self) = Returns (m, ts, msgs) \<longrightarrow>
           (\<exists>a. bind_result (np_array (PList frames)) (astype float64) = Returns a
              \<and> (ndim a = 3 \<longrightarrow>
                   (\<exists>r. m = NdArray r \<and> shape r = [shape a ! 1, shape a ! 0]
                      \<and> (\<forall>c < shape a ! 1. \<forall>t < shape a ! 0.
                            item r [c, t] = item a [t, c, 0])))
              \<and> (ndim a = 2 \<longrightarrow>
                   (\<exists>r. m = NdArray r \<and> shape r = [shape a ! 1, shape a ! 0]
                      \<and> (\<forall>c < shape a ! 1. \<forall>t < shape a ! 0.
                            item r [c, t] = item a [t, c])))
              \<and> (ndim a < 2 \<longrightarrow> m = NdArray a)))
       \<and> (bind_result (np_array (PList frames)) (astype float64) = Returns a'
            \<and> bind_result (np_array (PList timestamps)) (\<lambda>a. getitem_col a 0) = Returns tsa
            \<and> (ndim a' = 3 \<longrightarrow> 0 < shape a' ! 2) \<longrightarrow>
           (\<exists>m'. process_frames float64 self = (Returns (m', NdArray tsa, messages), self')))"
proof (intro conjI impI)
  assume ret: "fst (process_frames float64 self) = Returns (m, ts, msgs)"
  from process_frames_returns [OF loop ne ret] obtain a
    where a: "bind_result (np_array (PList frames)) (astype float64) = Returns a"
      and 3: "ndim a = 3 \<longrightarrow>
          (\<exists>r. m = NdArray r
             \<and> bind_result (np_transpose a [2, 1, 0]) (\<lambda>b. getitem b 0) = Returns r)"
      and 2: "ndim a = 2 \<longrightarrow> (\<exists>r. m = NdArray r \<and> np_transpose a [1, 0] = Returns r)"
      and 1: "ndim a < 2 \<longrightarrow> m = NdArray a"
    by blast
  show "\<exists>a. bind_result (np_array (PList frames)) (astype float64) = Returns a
     \<and> (ndim a = 3 \<longrightarrow>
          (\<exists>r. m = NdArray r \<and> shape r = [shape a ! 1, shape a ! 0]
             \<and> (\<forall>c < shape a ! 1. \<forall>t < shape a ! 0. item r [c, t] = item a [t, c, 0])))
     \<and> (ndim a = 2 \<longrightarrow>
          (\<exists>r. m = NdArray r \<and> shape r = [shape a ! 1, shape a ! 0]
             \<and> (\<forall>c < shape a ! 1. \<forall>t < shape a ! 0. item r [c, t] = item a [t, c])))
     \<and> (ndim a < 2 \<longrightarrow> m = NdArray a)"
    using a 1 2 3 frames_3d [of a] frames_2d [of a] by blast
next
  assume "bind_result (np_array (PList frames)) (astype float64) = Returns a'
            \<and> bind_result (np_array (PList timestamps)) (\<lambda>a. getitem_col a 0) = Returns tsa
            \<and> (ndim a' = 3 \<longrightarrow> 0 < shape a' ! 2)"
  then show "\<exists>m'. process_frames float64 self = (Returns (m', NdArray tsa, messages), self')"
    using process_frames_returns_if [OF loop ne] by blast
qed

theorem process_frames_shape_policy_witness:
  "(\<exists>a. bind_result (np_array (PList [PList [PList [PInt 1, PInt 2], PList [PInt 3, PInt 4]]]))
          (astype float64_of_number) = Returns a
     \<and> ndim a = 3 \<and> shape a = [1, 2, 2]
     \<and> (\<forall>c < 2. \<forall>t < 1.
           item \<lparr>shape = [2, 1], data = [PFloat 1, PFloat 3]\<rparr> [c, t] = item a [t, c, 0]))
   \<and> (\<exists>m'. process_frames float64_of_number
               (example_instance\<lparr>socket := Some [Payload example_data]\<rparr>) =
            (Returns (m', NdArray \<lparr>shape = [1, 1], data = [PInt 100]\<rparr>, []), example_instance))"
proof -
  have ne: "[PList [PList [PInt 1, PInt 2], PList [PInt 3, PInt 4]]] \<noteq> []" by simp
  have a: "bind_result (np_array (PList [PList [PList [PInt 1, PInt 2], PList [PInt 3, PInt 4]]]))
          (astype float64_of_number) =
        Returns \<lparr>shape = [1, 2, 2], data = [PFloat 1, PFloat 2, PFloat 3, PFloat 4]\<rparr>"
    by (simp add: np_array_def astype_def bind_result_simps)
  have t: "bind_result (np_array (PList [PList [PList [PInt 100], PList [PInt 101]]]))
          (\<lambda>a. getitem_col a 0) = Returns \<lparr>shape = [1, 1], data = [PInt 100]\<rparr>"
    by (simp add: np_array_def getitem_col_def bind_result_simps)
  note th = process_frames_shape_policy [OF example_data_loop ne,
      of float64_of_number "NdArray \<lparr>shape = [2, 1], data = [PFloat 1, PFloat 3]\<rparr>"
         "NdArray \<lparr>shape = [1, 1], data = [PInt 100]\<rparr>" "[]"
         "\<lparr>shape = [1, 2, 2], data = [PFloat 1, PFloat 2, PFloat 3, PFloat 4]\<rparr>"
         "\<lparr>shape = [1, 1], data = [PInt 100]\<rparr>"]
  have 1: "\<exists>a. bind_result (np_array (PList [PList [PList [PInt 1, PInt 2], PList [PInt 3, PInt 4]]]))
          (astype float64_of_number) = Returns a
     \<and> ndim a = 3 \<and> shape a = [1, 2, 2]
     \<and> (\<forall>c < 2. \<forall>t < 1.
           item \<lparr>shape = [2, 1], data = [PFloat 1, PFloat 3]\<rparr> [c, t] = item a [t, c, 0])"
    using th [THEN conjunct1] example_data_batch by (auto simp: a ndim_def)
  have 2: "\<exists>m'. process_frames float64_of_number
               (example_instance\<lparr>socket := Some [Payload example_data]\<rparr>) =
            (Returns (m', NdArray \<lparr>shape = [1, 1], data = [PInt 100]\<rparr>, []), example_instance)"
    using th [THEN conjunct2] a t by (simp add: ndim_def)
  show ?thesis using 1 2 by blast
qed

subsection \<open>C3: the returned timestamps\<close>

text \<open>
  The loop on a queue of data messages; the length of a flattened value; blocks of a
  concatenation of lists of one length; the first column of a stack.
\<close>

lemma np_shape_PList:
  assumes "np_shape (PList xs) = Some sh"
  shows "xs = [] \<longrightarrow> sh = [0]"
    and "xs \<noteq> [] \<longrightarrow> (\<exists>sh'. sh = length xs # sh' \<and> (\<forall>x \<in> set xs. np_shape x = Some sh'))"
  using assms
  by (auto simp: list_all_iff split: list.splits option.splits if_splits)

lemma length_concat_uniform:
  "(\<forall>x \<in> set xs. length (f x) = m) \<Longrightarrow> length (concat (map f xs)) = length xs * m"
  by (induction xs) simp_all

lemma np_flat_length: "np_shape v = Some sh \<Longrightarrow> length (np_flat v) = prod_list sh"
proof (induction v arbitrary: sh rule: np_shape.induct)
  case (1 xs)
  show ?case
  proof (cases "xs = []")
    case True
    then show ?thesis using np_shape_PList(1) [OF "1.prems"] by simp
  next
    case False
    then obtain sh' where sh: "sh = length xs # sh'"
      and el: "\<forall>x \<in> set xs. np_shape x = Some sh'"
      using np_shape_PList(2) [OF "1.prems"] by blast
    have "\<forall>x \<in> set xs. length (np_flat x) = prod_list sh'"
      using el "1.IH" by blast
    then show ?thesis by (simp add: sh length_concat_uniform)
  qed
qed simp_all

lemma drop_concat_uniform:
  "(\<forall>x \<in> set xs. length (f x) = m) \<Longrightarrow>
   drop (t * m) (concat (map f xs)) = concat (map f (drop t xs))"
proof (induction xs arbitrary: t)
  case Nil
  then show ?case by simp
next
  case (Cons x xs)
  then show ?case by (cases t) simp_all
qed

lemma block_concat_uniform:
  assumes "\<forall>x \<in> set xs. length (f x) = m" and "t < length xs"
  shows "take m (drop (t * m) (concat (map f xs))) = f (xs ! t)"
proof -
  have "drop t xs = xs ! t # drop (Suc t) xs" using assms(2) by (simp add: Cons_nth_drop_Suc)
  then show ?thesis using assms by (simp add: drop_concat_uniform)
qed

lemma stacked_first_column:
  assumes "bind_result (np_array (PList xs)) (\<lambda>a. getitem_col a 0) = Returns r"
    and "xs \<noteq> []"
  shows "len (NdArray r) = Returns (length xs)
     \<and> (\<forall>t < length xs.
           np_shape (xs ! t) \<noteq> Some []
           \<and> (\<exists>x. getitem r t = Returns x
                  \<and> bind_result (np_array (xs ! t)) (\<lambda>a. getitem a 0) = Returns x))"
proof -
  from assms(1) obtain sh where sh: "np_shape (PList xs) = Some sh"
    and col: "getitem_col \<lparr>shape = sh, data = np_flat (PList xs)\<rparr> 0 = Returns r"
    by (auto simp: np_array_def bind_result_Returns_iff bind_result_simps split: option.splits)
  from sh assms(2) obtain sh' where sh': "sh = length xs # sh'"
    and el: "\<forall>x \<in> set xs. np_shape x = Some sh'"
    using np_shape_PList(2) by blast
  from col sh' obtain k ns where ns: "sh' = k # ns" and k: "0 < k"
    by (cases sh') (auto simp: getitem_col_def split: if_splits)
  let ?P = "prod_list ns"
  let ?D = "concat (map np_flat xs)"
  let ?blk = "\<lambda>i. take ?P (drop (i * k * ?P) ?D)"
  have r: "r = \<lparr>shape = length xs # ns, data = concat (map ?blk [0..<length xs])\<rparr>"
    using col by (simp add: getitem_col_def sh' ns k)
  have fl: "\<forall>x \<in> set xs. length (np_flat x) = k * ?P"
    using el np_flat_length by (auto simp: ns)
  have blk: "?blk t = take ?P (np_flat (xs ! t))" if "t < length xs" for t
  proof -
    have "drop (t * (k * ?P)) ?D = concat (map np_flat (drop t xs))"
      using fl by (rule drop_concat_uniform)
    also have "drop t xs = xs ! t # drop (Suc t) xs"
      using that by (simp add: Cons_nth_drop_Suc)
    finally have "drop (t * k * ?P) ?D = np_flat (xs ! t) @ concat (map np_flat (drop (Suc t) xs))"
      by (simp add: mult.assoc)
    moreover have "?P \<le> length (np_flat (xs ! t))"
      using fl that k by simp
    ultimately show ?thesis by simp
  qed
  have blen: "\<forall>i \<in> set [0..<length xs]. length (?blk i) = ?P"
  proof
    fix i assume "i \<in> set [0..<length xs]"
    then have i: "i < length xs" by simp
    have "?P \<le> length (np_flat (xs ! i))" using fl i k by simp
    then show "length (?blk i) = ?P" using blk [OF i] by simp
  qed
  have item: "getitem r t = Returns \<lparr>shape = ns, data = take ?P (np_flat (xs ! t))\<rparr>
      \<and> bind_result (np_array (xs ! t)) (\<lambda>a. getitem a 0) =
          Returns \<lparr>shape = ns, data = take ?P (np_flat (xs ! t))\<rparr>
      \<and> np_shape (xs ! t) \<noteq> Some []"
    if t: "t < length xs" for t
  proof -
    have "take ?P (drop (t * ?P) (concat (map ?blk [0..<length xs]))) = ?blk ([0..<length xs] ! t)"
      using blen t by (intro block_concat_uniform) simp_all
    then have "take ?P (drop (t * ?P) (data r)) = take ?P (np_flat (xs ! t))"
      using t blk by (simp add: r)
    then have 1: "getitem r t = Returns \<lparr>shape = ns, data = take ?P (np_flat (xs ! t))\<rparr>"
      using t by (simp add: getitem_def r)
    have s: "np_shape (xs ! t) = Some (k # ns)" using el t ns by simp
    then have 2: "bind_result (np_array (xs ! t)) (\<lambda>a. getitem a 0) =
          Returns \<lparr>shape = ns, data = take ?P (np_flat (xs ! t))\<rparr>"
      using k by (simp add: np_array_def getitem_def bind_result_simps)
    show ?thesis using 1 2 s by simp
  qed
  show ?thesis using item by (simp add: r)
qed

text \<open>
  Claim C3 says that for every sequence of N data messages delivered before one call,
  whatever the shape of the timestamp fields (scalar or nested array), the returned
  timestamp sequence has length N and is in arrival order. The method takes
  \<^verbatim>\<open>np.array(timestamps)[:, 0]\<close>, which needs a second axis. As amended: whenever the
  call returns, the returned timestamp sequence has length N along its first axis, and
  its entry \<open>t\<close> is element 0 of the timestamp field of message \<open>t\<close>
  (\<^verbatim>\<open>np.array(timestamp)[0]\<close>); and for N of at least 1 the call returns only when no
  timestamp field is a scalar.
\<close>

theorem process_frames_timestamps:
  assumes "list_all is_data_message ds" and "socket self = Some (map Payload ds)"
    and "fst (process_frames float64 self) = Returns (m, ts, msgs)"
  shows "len ts = Returns (length ds)
     \<and> (\<forall>t < length ds.
           np_shape (field ''timestamp'' (ds ! t)) \<noteq> Some []
           \<and> (\<exists>r x. ts = NdArray r \<and> getitem r t = Returns x
                  \<and> bind_result (np_array (field ''timestamp'' (ds ! t))) (\<lambda>a. getitem a 0)
                      = Returns x))"
proof (cases "ds = []")
  case True
  with assms have "recv_loop ([], [], []) self = (Returns ([], [], []), self)"
    by (simp add: recv_loop_empty)
  with assms(3) have "ts = PyList []" by (auto simp: process_frames_def)
  with True show ?thesis by simp
next
  case False
  let ?xs = "map (field ''timestamp'') ds"
  have loop: "recv_loop ([], [], []) self =
         (Returns (map (field ''frame'') ds, ?xs, []), self\<lparr>socket := Some []\<rparr>)"
    using assms(1,2) by (rule recv_loop_all_data)
  from False have ne: "map (field ''frame'') ds \<noteq> []" by simp
  from process_frames_returns [OF loop ne assms(3)] obtain r
    where r: "bind_result (np_array (PList ?xs)) (\<lambda>a. getitem_col a 0) = Returns r"
      and ts: "ts = NdArray r"
    by blast
  from False have "?xs \<noteq> []" by simp
  from stacked_first_column [OF r this] show ?thesis by (simp add: ts)
qed

theorem process_frames_timestamps_witness:
  "len (NdArray \<lparr>shape = [1, 1], data = [PInt 100]\<rparr>) = Returns (length [example_data])
   \<and> getitem \<lparr>shape = [1, 1], data = [PInt 100]\<rparr> 0 =
       bind_result (np_array (PList [PList [PInt 100], PList [PInt 101]])) (\<lambda>a. getitem a 0)"
proof -
  have 1: "list_all is_data_message [example_data]" by (simp add: example_data_def)
  have 2: "socket (example_instance\<lparr>socket := Some [Payload example_data]\<rparr>) =
           Some (map Payload [example_data])"
    by simp
  have 3: "field ''timestamp'' example_data = PList [PList [PInt 100], PList [PInt 101]]"
    by (simp add: field_def example_data_def)
  show ?thesis
    using process_frames_timestamps [OF 1 2 example_data_batch] by (auto simp: 3)
qed

text \<open>One data message with the timestamp 100: the call raises \<^verbatim>\<open>IndexError\<close>.\<close>

theorem process_frames_scalar_timestamp_counterexample:
  "fst (process_frames float64_of_number
          (example_instance\<lparr>socket := Some [Payload example_scalar]\<rparr>)) = Raises IndexError"
proof -
  have "recv_loop ([], [], []) (example_instance\<lparr>socket := Some [Payload example_scalar]\<rparr>) =
     (Returns ([PList [PInt 1, PInt 2]], [PInt 100], []),
      example_instance\<lparr>socket := Some [Payload example_scalar]\<rparr>\<lparr>socket := Some []\<rparr>)"
    using recv_loop_all_data [of "[example_scalar]"
        "example_instance\<lparr>socket := Some [Payload example_scalar]\<rparr>"]
    by (simp add: example_scalar_def field_def)
  then show ?thesis
    by (simp add: process_frames_def bind_result_def np_array_def astype_def
      ndim_def np_transpose_def getitem_def getitem_col_def item_def source_index_def
      upt_3 upt_2 Let_def)
qed

subsection \<open>C4: stop_stream\<close>

text \<open>
  Claim C4 says that \<^verbatim>\<open>stop_stream\<close>, called from any state, sets the termination signal
  if there is one, sets availability false, flushes the channel, raises no error, and is
  a no-op before any start. Line 57 reads \<^verbatim>\<open>self.term_event\<close>, an attribute that no
  line assigns (the signal is \<^verbatim>\<open>self.terminate_event\<close>): on the instance as the
  constructor's assignments leave it the call raises \<^verbatim>\<open>AttributeError\<close> and changes
  nothing.
\<close>

theorem stop_stream_raises_AttributeError:
  "stop_stream example_instance = (Raises (AttributeError ''term_event''), example_instance)"
  by (simp add: stop_stream_def example_instance_def new_object_def getattr_def)

subsection \<open>C5: a payload that does not decode\<close>

text \<open>
  Claim C5 says that a message whose payload fails to decode is dropped and the loop
  goes on, with no error to the caller. The loop catches \<^verbatim>\<open>zmq.Again\<close> only. As
  amended: when data messages are followed by a payload that does not decode,
  \<^verbatim>\<open>process_frames\<close> raises the decode error to its caller; what it had received in this
  call is lost with its local lists, and the messages behind the bad payload stay queued.
\<close>

theorem process_frames_decode_error:
  assumes "list_all is_data_message ds"
    and "socket self = Some (map Payload ds @ Malformed # q)"
  shows "process_frames float64 self = (Raises JSONDecodeError, self\<lparr>socket := Some q\<rparr>)"
proof -
  have "recv_loop ([], [], []) self =
        recv_loop ([] @ map (field ''frame'') ds, [] @ map (field ''timestamp'') ds, [])
          (self\<lparr>socket := Some (Malformed # q)\<rparr>)"
    using assms by (rule recv_loop_data_list)
  also have "\<dots> = (Raises JSONDecodeError,
                    self\<lparr>socket := Some (Malformed # q), socket := Some q\<rparr>)"
    by (rule recv_loop_malformed) simp
  finally show ?thesis by (simp add: process_frames_def)
qed

theorem process_frames_decode_error_witness:
  "process_frames float64_of_number
     (example_instance\<lparr>socket := Some [Payload example_data, Malformed, Payload example_data]\<rparr>) =
   (Raises JSONDecodeError, example_instance\<lparr>socket := Some [Payload example_data]\<rparr>)"
  using process_frames_decode_error [of "[example_data]"
      "example_instance\<lparr>socket := Some [Payload example_data, Malformed, Payload example_data]\<rparr>"
      "[Payload example_data]" float64_of_number]
  by (simp add: example_data_def)

theorem process_frames_decode_error_counterexample:
  "fst (process_frames float64_of_number
          (example_instance\<lparr>socket := Some [Malformed, Payload example_data]\<rparr>)) =
     Raises JSONDecodeError
   \<and> socket (snd (process_frames float64_of_number
          (example_instance\<lparr>socket := Some [Malformed, Payload example_data]\<rparr>))) =
     Some [Payload example_data]"
proof -
  have "recv_loop ([], [], []) (example_instance\<lparr>socket := Some [Malformed, Payload example_data]\<rparr>)
        = (Raises JSONDecodeError,
           example_instance\<lparr>socket := Some [Malformed, Payload example_data],
             socket := Some [Payload example_data]\<rparr>)"
    by (rule recv_loop_malformed) simp
  then show ?thesis by (simp add: process_frames_def)
qed

subsection \<open>C6: start_stream\<close>

text \<open>
  Claim C6 says that \<^verbatim>\<open>start_stream\<close> allocates a fresh termination signal and spawns
  the driver with the command line \<open>[executable_path, port]\<close>, plus
  \<open>["--license", license_path]\<close> when a license path is configured, and that a child
  process is then recorded as live. The method ends where the command line is built: it
  reads \<^verbatim>\<open>self.license_path\<close>, which no line assigns, and with that attribute supplied it
  returns with \<open>device_process\<close> still \<^verbatim>\<open>None\<close>.
\<close>

theorem start_stream_spawns_nothing:
  "start_stream example_base_dir example_instance =
     (Raises (AttributeError ''license_path''),
      example_instance\<lparr>terminate_event := Some (PEvent False)\<rparr>)
   \<and> start_stream example_base_dir
         (example_instance\<lparr>license_path := Some (PStr ''license.key'')\<rparr>) =
     (Returns (),
      example_instance\<lparr>license_path := Some (PStr ''license.key''),
        terminate_event := Some (PEvent False)\<rparr>)
   \<and> device_process (example_instance\<lparr>license_path := Some (PStr ''license.key''),
        terminate_event := Some (PEvent False)\<rparr>) = Some PNone"
  by (simp add: start_stream_def example_instance_def new_object_def getattr_def Let_def)

lemma get_executable_path_examples:
  "get_executable_path example_base_dir =
     ''C:'' @ [CHR 0x5C] @ ''app'' @ [CHR 0x5C] @ ''x64'' @ [CHR 0x5C] @ ''Debug''
       @ [CHR 0x5C] @ ''BAlertX24.exe''"
  "get_executable_path ''C:'' =
     ''C:x64'' @ [CHR 0x5C] @ ''Debug'' @ [CHR 0x5C] @ ''BAlertX24.exe''"
  by (simp_all add: get_executable_path_def path_join_def drive_rest_def example_base_dir_def)

lemma start_stream_device_process:
  "device_process (snd (start_stream base_dir self)) = device_process self"
  by (simp add: start_stream_def getattr_def Let_def split: option.splits)

subsection \<open>C7: process_frames in any state\<close>




subsection \<open>C8: the platform check\<close>

text \<open>
  Claim C8 says that constructing the interface on a host other than Windows raises the
  unsupported-platform error before any channel is bound, so that no port is allocated.
  Here: when the base-class constructor returns, the constructor raises
  \<^verbatim>\<open>EnvironmentError\<close>; and in every case no context is created and no port bound, and
  the object is as the base class left it.
\<close>

theorem init_unsupported_platform:
  assumes "platform_system w \<noteq> ''Windows''"
  shows "(fst (base_init dn dt sr (PBool False) self) = Returns () \<longrightarrow>
            fst (init extra base_init dn dt sr chn lic w self) =
              Raises (EnvironmentError
                ''Platform Not Supported: BAlertX24 is only supported on Windows''))
         \<and> fst (snd (init extra base_init dn dt sr chn lic w self)) = w
         \<and> snd (snd (init extra base_init dn dt sr chn lic w self)) =
             snd (base_init dn dt sr (PBool False) self)"
  using assms by (auto simp: init_def split: prod.splits result.splits)

theorem init_unsupported_platform_witness:
  "platform_system (example_world ''Linux'') \<noteq> ''Windows''
   \<and> init [] example_base_init (PStr ''BAlertX24'') (PStr ''eeg'') (PInt 256) PNone PNone
        (example_world ''Linux'') new_object =
       (Raises (EnvironmentError ''Platform Not Supported: BAlertX24 is only supported on Windows''),
        example_world ''Linux'', new_object\<lparr>device_nominal_sampling_rate := Some (PInt 256)\<rparr>)
   \<and> bound_ports (example_world ''Linux'') = []"
  using init_unsupported_platform [of "example_world ''Linux''" example_base_init
      "PStr ''BAlertX24''" "PStr ''eeg''" "PInt 256" new_object "[]" PNone PNone]
  by (simp add: example_world_def example_base_init_def prod_eq_iff)

subsection \<open>C9: the constructor on Windows\<close>

text \<open>
  Claim C9 says that on Windows the constructor raises \<^verbatim>\<open>NameError\<close> for every choice
  of arguments, because line 36 reads the undefined name \<^verbatim>\<open>_license_path\<close>, before the ZMQ
  context or socket is created, so that no instance is ever constructed on any platform.
  Here, for the module's own globals: when the base-class constructor returns, the
  constructor raises \<^verbatim>\<open>NameError\<close>, the world is unchanged (no context, no port) and
  the socket and context attributes are as the base class left them; and on no platform
  does the constructor return.
\<close>

lemma module_globals_no_license_path: "map_of module_globals ''_license_path'' = None"
  by (simp add: module_globals_def)

theorem init_raises_NameError:
  "(platform_system w = ''Windows'' \<and> fst (base_init dn dt sr (PBool False) self) = Returns () \<longrightarrow>
      fst (init [] base_init dn dt sr chn lic w self) = Raises (NameError ''_license_path'')
      \<and> fst (snd (init [] base_init dn dt sr chn lic w self)) = w
      \<and> socket (snd (snd (init [] base_init dn dt sr chn lic w self))) =
          socket (snd (base_init dn dt sr (PBool False) self))
      \<and> context' (snd (snd (init [] base_init dn dt sr chn lic w self))) =
          context' (snd (base_init dn dt sr (PBool False) self)))
   \<and> fst (init [] base_init dn dt sr chn lic w self) \<noteq> Returns ()"
  by (auto simp: init_def load_global_def module_globals_no_license_path Let_def
      split: prod.splits result.splits)

theorem init_raises_NameError_witness:
  "platform_system (example_world ''Windows'') = ''Windows''
   \<and> init [] example_base_init (PStr ''BAlertX24'') (PStr ''eeg'') (PInt 256)
        (PList [PStr ''Cz'']) (PStr ''license.key'') (example_world ''Windows'') new_object =
       (Raises (NameError ''_license_path''), example_world ''Windows'',
        new_object\<lparr>device_nominal_sampling_rate := Some (PInt 256),
          stream_name := Some (PStr ''BAlertX24''), stream_type := Some (PStr ''eeg'')\<rparr>)"
  using init_raises_NameError [of "example_world ''Windows''" example_base_init
      "PStr ''BAlertX24''" "PStr ''eeg''" "PInt 256" new_object "PList [PStr ''Cz'']"
      "PStr ''license.key''"]
  by (simp add: example_world_def example_base_init_def init_def load_global_def
      module_globals_no_license_path)

subsection \<open>C10: the channel names\<close>

text \<open>
  Claim C10 says that the constructor's channel-name assignment does not depend on the
  \<^verbatim>\<open>_ch_names\<close> argument: for every argument the list is set to the fixed 24 names, and a
  list passed by the caller is ignored. Line 37 is that assignment, and the fixed list
  has 24 entries; but line 36 raises before it. On Windows, with an explicit list of two
  names, the constructor raises \<^verbatim>\<open>NameError\<close> and leaves \<open>ch_names\<close> unassigned.
\<close>

theorem init_ch_names_unassigned:
  "init [] example_base_init (PStr ''BAlertX24'') (PStr ''eeg'') (PInt 256)
        (PList [PStr ''Cz'', PStr ''Pz'']) PNone (example_world ''Windows'') new_object =
     (Raises (NameError ''_license_path''), example_world ''Windows'',
      new_object\<lparr>device_nominal_sampling_rate := Some (PInt 256),
        stream_name := Some (PStr ''BAlertX24''), stream_type := Some (PStr ''eeg'')\<rparr>)
   \<and> ch_names (new_object\<lparr>device_nominal_sampling_rate := Some (PInt 256),
        stream_name := Some (PStr ''BAlertX24''), stream_type := Some (PStr ''eeg'')\<rparr>) = None
   \<and> length fixed_ch_names = 24"
  by (simp add: init_def example_base_init_def example_world_def load_global_def
      module_globals_no_license_path new_object_def fixed_ch_names_def)

text \<open>
  With the module's own globals no run of the constructor assigns \<open>ch_names\<close>: it is
  as the base class left it, whatever the arguments.
\<close>

lemma init_never_assigns_ch_names:
  "ch_names (snd (snd (init [] base_init dn dt sr chn lic w self))) =
   ch_names (snd (base_init dn dt sr (PBool False) self))"
  by (auto simp: init_def load_global_def module_globals_no_license_path Let_def
      split: prod.splits result.splits)

end
